theory Spec2Isabelle
  imports Complex_Main
begin

section \<open>OpenFMR: the numeric analysis core\<close>

text \<open>
  The Python sources compute with IEEE double precision numbers. Throughout this theory a
  float is modelled by the real number it stands for, so every operation is exact; the
  floating point values that are not real numbers are written out where the code can
  produce them: NaN is \<open>None\<close> of an option type, and a raised exception is \<open>Inl\<close> of a
  sum type. Arrays are lists.
\<close>

subsection \<open>Physical constants (\<open>fmr.py\<close> and \<open>OpenFMR_Fit.py\<close>, identical in both)\<close>

definition mu0 :: real where
  "mu0 = 12566 / 10 ^ 10"

definition e :: real where
  "e = 1602 / 10 ^ 22"

definition me :: real where
  "me = 911 / 10 ^ 33"

text \<open>
  The gyromagnetic prefactor is written inline as \<open>g*e/(2*me) / (2*np.pi)\<close> in
  \<open>kittel_fitfunction_inplane\<close>, \<open>kittel_fitfunction_outofplane\<close> and \<open>field_sweep\<close>.
\<close>

definition gamma_prime :: "real \<Rightarrow> real" where
  "gamma_prime g = g * e / (2 * me) / (2 * pi)"

subsection \<open>Exceptions\<close>

text \<open>
  The Python exceptions the modelled code can raise. \<open>InsufficientData\<close> is the error
  kind the specification names for the Kittel and damping fits; no statement of the
  sources raises it.
\<close>

datatype py_error =
  ValueError | TypeError | ZeroDivisionError | IndexError | UnboundLocalError
  | InsufficientData

subsection \<open>Kittel dispersion relations\<close>

text \<open>\<open>np.sqrt\<close> of a negative float is NaN (with a warning, no exception).\<close>

definition np_sqrt :: "real \<Rightarrow> real option" where
  "np_sqrt v = (if v < 0 then None else Some (sqrt v))"

text \<open>\<open>Fit.kittel_fitfunction_inplane\<close>, at one field value.\<close>

definition kittel_fitfunction_inplane :: "real \<Rightarrow> real \<Rightarrow> real \<Rightarrow> real option" where
  "kittel_fitfunction_inplane B M g =
     (case np_sqrt (B * (B + mu0 * M)) of
        None \<Rightarrow> None
      | Some s \<Rightarrow> Some (gamma_prime g * s))"

text \<open>\<open>Fit.kittel_fitfunction_outofplane\<close>, at one field value.\<close>

definition kittel_fitfunction_outofplane :: "real \<Rightarrow> real \<Rightarrow> real \<Rightarrow> real" where
  "kittel_fitfunction_outofplane B M g = gamma_prime g * (B - mu0 * M)"

subsection \<open>Line shapes\<close>

text \<open>
  Double arithmetic rounds a product of magnitude at most \<open>1 / 2 ^ 1075\<close>, half the least
  positive double, to \<open>0.0\<close>. In \<open>Fit.lorentz_derivative\<close> the squares are the operations
  that can return zero for a non-zero operand, and the denominator is built from them
  alone; they are modelled with this underflow and are exact otherwise.
\<close>

definition double_square :: "real \<Rightarrow> real" where
  "double_square v = (if v\<^sup>2 \<le> 1 / 2 ^ 1075 then 0 else v\<^sup>2)"

text \<open>The denominator \<open>((B - B0)**2 + Gamma**2)**2\<close>.\<close>

definition lorentz_denominator :: "real \<Rightarrow> real \<Rightarrow> real \<Rightarrow> real" where
  "lorentz_denominator B B0 Gamma =
     double_square (double_square (B - B0) + double_square Gamma)"

text \<open>
  \<open>Fit.lorentz_derivative\<close>, at one field value of the numpy array \<open>B\<close>. numpy divides by
  \<open>0.0\<close> without raising: the result is NaN or an infinity, which is \<open>None\<close> here.
\<close>

definition lorentz_derivative :: "real \<Rightarrow> real \<Rightarrow> real \<Rightarrow> real \<Rightarrow> real \<Rightarrow> real option" where
  "lorentz_derivative B A B0 Gamma offset =
     (if lorentz_denominator B B0 Gamma = 0 then None
      else Some (A * double_square Gamma * (B0 - B) / lorentz_denominator B B0 Gamma + offset))"

subsection \<open>numpy and scipy array functions used by the sources\<close>

text \<open>
  \<open>np.mean\<close> of a non-empty array. Of an empty array numpy returns NaN; below, the mean
  of an empty array is either never used (\<open>fit_derivative\<close> raises first) or only feeds
  the initial guess handed to \<open>curve_fit\<close> (the out-of-plane guess of \<open>KittelFit\<close> for
  empty frequency data).
\<close>

definition np_mean :: "real list \<Rightarrow> real" where
  "np_mean ys = sum_list ys / real (length ys)"

text \<open>
  \<open>np.argmax\<close> and \<open>np.argmin\<close>: one scan from the left that keeps the best value
  seen and its index, replaced only by a strictly better value (so the first occurrence
  wins); \<open>ValueError\<close> on an empty array.
\<close>

fun argmax_from :: "real \<Rightarrow> nat \<Rightarrow> nat \<Rightarrow> real list \<Rightarrow> nat" where
  "argmax_from best bi i [] = bi"
| "argmax_from best bi i (v # vs) =
     (if best < v then argmax_from v i (Suc i) vs else argmax_from best bi (Suc i) vs)"

fun argmin_from :: "real \<Rightarrow> nat \<Rightarrow> nat \<Rightarrow> real list \<Rightarrow> nat" where
  "argmin_from best bi i [] = bi"
| "argmin_from best bi i (v # vs) =
     (if v < best then argmin_from v i (Suc i) vs else argmin_from best bi (Suc i) vs)"

definition np_argmax :: "real list \<Rightarrow> py_error + nat" where
  "np_argmax ys = (case ys of [] \<Rightarrow> Inl ValueError | v # vs \<Rightarrow> Inr (argmax_from v 0 1 vs))"

definition np_argmin :: "real list \<Rightarrow> py_error + nat" where
  "np_argmin ys = (case ys of [] \<Rightarrow> Inl ValueError | v # vs \<Rightarrow> Inr (argmin_from v 0 1 vs))"

text \<open>\<open>np.diff(a)\<close> is \<open>a[1:] - a[:-1]\<close>.\<close>

definition np_diff :: "real list \<Rightarrow> real list" where
  "np_diff xs = map2 (\<lambda>a b. a - b) (tl xs) (butlast xs)"

fun cumsum_from :: "real \<Rightarrow> real list \<Rightarrow> real list" where
  "cumsum_from acc [] = []"
| "cumsum_from acc (v # vs) = (acc + v) # cumsum_from (acc + v) vs"

definition np_cumsum :: "real list \<Rightarrow> real list" where
  "np_cumsum vs = cumsum_from 0 vs"

text \<open>
  \<open>scipy.integrate.cumtrapz(y, x)\<close> with \<open>initial=None\<close>: with \<open>d = diff(x)\<close>, it raises
  \<open>ValueError\<close> unless \<open>len(d) == len(y) - 1\<close> and returns
  \<open>cumsum(d * (y[1:] + y[:-1]) / 2.0)\<close>, one entry fewer than \<open>y\<close>.
\<close>

definition cumtrapz :: "real list \<Rightarrow> real list \<Rightarrow> py_error + real list" where
  "cumtrapz y x =
     (let d = np_diff x in
      if int (length d) \<noteq> int (length y) - 1 then Inl ValueError
      else Inr (np_cumsum (map2 (\<lambda>dk s. dk * s / 2) d (map2 (\<lambda>a b. a + b) (tl y) (butlast y)))))"

text \<open>
  \<open>np.arange(start, stop, step)\<close> on floats returns \<open>ceil(q)\<close> values \<open>start + k * step\<close>
  (none when that count is not positive), where \<open>q\<close> is the quotient
  \<open>(stop - start) / step\<close> as double arithmetic delivers it; a zero step raises
  \<open>ZeroDivisionError\<close>. Rounding is not modelled, so the rounded quotient is an argument
  of the model: the first one, \<open>q\<close>. It differs from the exact quotient by a small relative
  error, which decides the count where the exact quotient is a whole number.
\<close>

definition np_arange :: "real \<Rightarrow> real \<Rightarrow> real \<Rightarrow> real \<Rightarrow> py_error + real list" where
  "np_arange q start stop step =
     (if step = 0 then Inl ZeroDivisionError
      else Inr (map (\<lambda>k. start + real k * step) [0 ..< nat \<lceil>q\<rceil>]))"

text \<open>
  The rounded quotient \<open>q\<close> is within the relative error \<open>tol\<close> of the exact quotient
  \<open>(stop - start) / step\<close>.
\<close>

definition rounded_quotient :: "real \<Rightarrow> real \<Rightarrow> real \<Rightarrow> real \<Rightarrow> real \<Rightarrow> bool" where
  "rounded_quotient tol q start stop step =
     (\<bar>q - (stop - start) / step\<bar> \<le> tol * \<bar>(stop - start) / step\<bar>)"

text \<open>\<open>np.linspace(start, stop, num)\<close> with the end point included.\<close>

definition np_linspace :: "real \<Rightarrow> real \<Rightarrow> nat \<Rightarrow> real list" where
  "np_linspace start stop num =
     (if num = 1 then [start]
      else map (\<lambda>k. start + real k * ((stop - start) / real (num - 1))) [0 ..< num])"

text \<open>
  Shapes of two one-dimensional arrays in an elementwise operation: equal lengths pair
  up, an array of length one is broadcast, anything else raises \<open>ValueError\<close>.
\<close>

definition np_broadcast :: "'a list \<Rightarrow> 'b list \<Rightarrow> py_error + ('a \<times> 'b) list" where
  "np_broadcast X Y =
     (if length X = length Y then Inr (zip X Y)
      else if length X = 1 then Inr (map (\<lambda>y. (hd X, y)) Y)
      else if length Y = 1 then Inr (map (\<lambda>x. (x, hd Y)) X)
      else Inl ValueError)"

text \<open>Python's \<open>xs[i]\<close> with a non-negative index, and \<open>max(xs)\<close>.\<close>

definition py_index :: "'a list \<Rightarrow> nat \<Rightarrow> py_error + 'a" where
  "py_index xs i = (if i < length xs then Inr (xs ! i) else Inl IndexError)"

definition py_max :: "real list \<Rightarrow> py_error + real" where
  "py_max xs = (case xs of [] \<Rightarrow> Inl ValueError | v # vs \<Rightarrow> Inr (fold max vs v))"

text \<open>
  \<open>np.gradient(f, x, edge_order=2)\<close> for one-dimensional \<open>f\<close> with finite entries and a
  coordinate array \<open>x\<close>. numpy raises \<open>ValueError\<close> when the lengths differ or when \<open>f\<close>
  has fewer than \<open>edge_order + 1\<close> entries; before that second check it reads \<open>dx[0]\<close> of
  \<open>dx = diff(x)\<close>, which raises \<open>IndexError\<close> for fewer than two entries. It takes the uniform
  branch when all entries of \<open>dx\<close> are equal and the general branch otherwise; each
  output entry is \<open>a*f[..] + b*f[..] + c*f[..]\<close> with the coefficients below. A zero
  divisor makes the entry infinite or NaN, which is \<open>None\<close> here.
\<close>

definition stencil :: "bool \<Rightarrow> real \<Rightarrow> real \<Rightarrow> real \<Rightarrow> real \<Rightarrow> real \<Rightarrow> real \<Rightarrow> real option" where
  "stencil zero_divisor a b c f0 f1 f2 =
     (if zero_divisor then None else Some (a * f0 + b * f1 + c * f2))"

definition gradient_uniform :: "real list \<Rightarrow> real \<Rightarrow> nat \<Rightarrow> real option" where
  "gradient_uniform f h i =
     (let n = length f in
      if i = 0 then
        stencil (h = 0) (- (3 / 2) / h) (2 / h) (- (1 / 2) / h) (f ! 0) (f ! 1) (f ! 2)
      else if i = n - 1 then
        stencil (h = 0) ((1 / 2) / h) (- 2 / h) ((3 / 2) / h) (f ! (n - 3)) (f ! (n - 2)) (f ! (n - 1))
      else
        (if h = 0 then None else Some ((f ! (i + 1) - f ! (i - 1)) / (2 * h))))"

definition gradient_general :: "real list \<Rightarrow> real list \<Rightarrow> nat \<Rightarrow> real option" where
  "gradient_general f dx i =
     (let n = length f in
      if i = 0 then
        (let dx1 = dx ! 0; dx2 = dx ! 1 in
         stencil (dx1 = 0 \<or> dx2 = 0 \<or> dx1 + dx2 = 0)
           (- (2 * dx1 + dx2) / (dx1 * (dx1 + dx2)))
           ((dx1 + dx2) / (dx1 * dx2))
           (- dx1 / (dx2 * (dx1 + dx2)))
           (f ! 0) (f ! 1) (f ! 2))
      else if i = n - 1 then
        (let dx1 = dx ! (n - 3); dx2 = dx ! (n - 2) in
         stencil (dx1 = 0 \<or> dx2 = 0 \<or> dx1 + dx2 = 0)
           (dx2 / (dx1 * (dx1 + dx2)))
           (- (dx2 + dx1) / (dx1 * dx2))
           ((2 * dx2 + dx1) / (dx2 * (dx1 + dx2)))
           (f ! (n - 3)) (f ! (n - 2)) (f ! (n - 1)))
      else
        (let dx1 = dx ! (i - 1); dx2 = dx ! i in
         stencil (dx1 = 0 \<or> dx2 = 0 \<or> dx1 + dx2 = 0)
           (- dx2 / (dx1 * (dx1 + dx2)))
           ((dx2 - dx1) / (dx1 * dx2))
           (dx1 / (dx2 * (dx1 + dx2)))
           (f ! (i - 1)) (f ! i) (f ! (i + 1))))"

definition np_gradient :: "real list \<Rightarrow> real list \<Rightarrow> py_error + real option list" where
  "np_gradient f x =
     (if length x \<noteq> length f then Inl ValueError
      else if length f < 2 then Inl IndexError
      else if length f < 3 then Inl ValueError
      else
        (let dx = np_diff x in
         if list_all (\<lambda>d. d = hd dx) dx
         then Inr (map (gradient_uniform f (hd dx)) [0 ..< length f])
         else Inr (map (gradient_general f dx) [0 ..< length f])))"

subsection \<open>The asymmetric Lorentz line shape\<close>

text \<open>
  The line \<open>l = A * Gamma**2 * (1 + 2 * beta * (B0 - B)/Gamma) / ((B0 - B)**2 + Gamma**2)\<close>
  of \<open>Fit.asymmetric_lorentz_derivative\<close> at one field value. For \<open>Gamma = 0\<close> the factor
  \<open>A * Gamma**2\<close> is zero and the bracket is infinite or NaN, so the value is NaN.
\<close>

definition asymmetric_lorentz :: "real \<Rightarrow> real \<Rightarrow> real \<Rightarrow> real \<Rightarrow> real \<Rightarrow> real option" where
  "asymmetric_lorentz B A B0 Gamma beta =
     (if Gamma = 0 then None
      else Some (A * Gamma\<^sup>2 * (1 + 2 * beta * (B0 - B) / Gamma) / ((B0 - B)\<^sup>2 + Gamma\<^sup>2)))"

text \<open>
  \<open>Fit.asymmetric_lorentz_derivative\<close> on the array \<open>B\<close>. When \<open>Gamma = 0\<close> every entry of
  \<open>l\<close> is NaN, so every entry of the gradient is NaN (the shape checks of \<open>np.gradient\<close>
  still apply).
\<close>

definition asymmetric_lorentz_derivative ::
  "real list \<Rightarrow> real \<Rightarrow> real \<Rightarrow> real \<Rightarrow> real \<Rightarrow> real \<Rightarrow> py_error + real option list" where
  "asymmetric_lorentz_derivative B A B0 Gamma offset beta =
     (case np_gradient (map (\<lambda>b. case asymmetric_lorentz b A B0 Gamma beta of None \<Rightarrow> 0 | Some v \<Rightarrow> v) B) B of
        Inl err \<Rightarrow> Inl err
      | Inr l_diff \<Rightarrow>
          if Gamma = 0 then Inr (map (\<lambda>_. None) l_diff)
          else Inr (map (map_option (\<lambda>v. v + offset)) l_diff))"

subsection \<open>The field-range planner (\<open>FMR.calc_B_range\<close>)\<close>

text \<open>
  \<open>step = deltaB / sampling\<close> divides Python numbers, so a zero \<open>sampling\<close> raises
  \<open>ZeroDivisionError\<close>. The lower bound is clipped before \<open>np.arange\<close> is called, and the
  offset is added to the finished array. The first argument \<open>q\<close> is the rounded quotient
  of that \<open>np.arange\<close> call.
\<close>

definition calc_B_range ::
  "real \<Rightarrow> real \<Rightarrow> real \<Rightarrow> real \<Rightarrow> real \<Rightarrow> real \<Rightarrow> py_error + real list" where
  "calc_B_range q B0 deltaB multiplier sampling offset =
     (let start = B0 - multiplier * deltaB;
          stop = B0 + multiplier * deltaB
      in if sampling = 0 then Inl ZeroDivisionError
         else
           (let step = deltaB / sampling;
                start = (if start < 0 then 0 else start)
            in case np_arange q start (stop + step) step of
                 Inl err \<Rightarrow> Inl err
               | Inr B \<Rightarrow> Inr (map (\<lambda>b. b + offset) B)))"

subsection \<open>The autophase estimator\<close>





subsection \<open>The parameter estimator and the line fit (\<open>Fit.fit_derivative\<close>)\<close>

text \<open>An entry of a bounds vector: \<open>-np.inf\<close>, a finite float, or \<open>np.inf\<close>.\<close>

datatype bound = NegInf | Fin real | PosInf

text \<open>The model functions that the sources hand to \<open>scipy.optimize.curve_fit\<close>.\<close>

datatype model_function =
  LorentzDerivative | AsymmetricLorentzDerivative | VoigtDerivative
  | KittelInplane | KittelOutofplane | DampingCurry real

text \<open>
  The arguments of one \<open>curve_fit\<close> call besides the data: the model function, the initial
  guess \<open>p0\<close>, and the \<open>bounds\<close> pair when the call passes one.
\<close>

record curve_fit_args =
  func :: model_function
  p0 :: "real list"
  bounds :: "(bound list \<times> bound list) option"

text \<open>
  \<open>Fit.fit_derivative\<close> up to its \<open>curve_fit\<close> call: the arguments it passes. The
  profile is the string of the caller's combo box; the three \<open>if\<close> statements on the scale
  and the final \<open>if/elif/else\<close> are kept as written.
\<close>

definition fit_derivative_args :: "real list \<Rightarrow> real list \<Rightarrow> string \<Rightarrow> py_error + curve_fit_args" where
  "fit_derivative_args x y fitProfile =
     (let offset = np_mean y in
      case np_argmax y of Inl err \<Rightarrow> Inl err | Inr imax \<Rightarrow>
      case py_index x imax of Inl err \<Rightarrow> Inl err | Inr x_max \<Rightarrow>
      case np_argmin y of Inl err \<Rightarrow> Inl err | Inr imin \<Rightarrow>
      case py_index x imin of Inl err \<Rightarrow> Inl err | Inr x_min \<Rightarrow>
      let width = \<bar>x_max - x_min\<bar> / 2 * sqrt 3 in
      case cumtrapz (map (\<lambda>v. v - offset) y) x of Inl err \<Rightarrow> Inl err | Inr integral \<Rightarrow>
      case (if imin < imax then np_argmin integral else np_argmax integral) of
        Inl err \<Rightarrow> Inl err | Inr k \<Rightarrow>
      case py_index x k of Inl err \<Rightarrow> Inl err | Inr center \<Rightarrow>
      case py_index y k of Inl err \<Rightarrow> Inl err | Inr y_k \<Rightarrow>
      let scale = y_k - offset;
          scale = (if fitProfile = ''Voigt'' then scale * 10 else scale);
          scale = (if fitProfile = ''Lorentz'' then scale * (1 / 100) else scale);
          scale = (if fitProfile = ''Asymmetric Lorentz'' then scale * (1 / 100) else scale)
      in
        if fitProfile = ''Lorentz'' then
          Inr \<lparr>func = LorentzDerivative, p0 = [scale, center, width, offset],
               bounds = Some ([NegInf, Fin 0, Fin 0, NegInf], [PosInf, PosInf, PosInf, PosInf])\<rparr>
        else if fitProfile = ''Asymmetric Lorentz'' then
          Inr \<lparr>func = AsymmetricLorentzDerivative, p0 = [scale, center, width, offset, 0],
               bounds = Some ([NegInf, Fin 0, Fin 0, NegInf, NegInf],
                              [PosInf, PosInf, PosInf, PosInf, PosInf])\<rparr>
        else
          Inr \<lparr>func = VoigtDerivative, p0 = [scale, center, width, 1 / 1000, offset],
               bounds = Some ([NegInf, Fin 0, Fin 0, Fin 0, NegInf],
                              [PosInf, PosInf, PosInf, PosInf, PosInf])\<rparr>)"

text \<open>
  \<open>scipy.optimize.curve_fit\<close> is not part of the repository. Its numerical least-squares
  solver is a parameter \<open>solve\<close>, a function from the call's arguments and the data to an
  exception or the pair \<open>(p, pcov)\<close>. The checks that \<open>curve_fit\<close> makes before it solves
  are modelled: empty \<open>ydata\<close> raises \<open>ValueError\<close>; a call without bounds uses the method
  \<open>'lm'\<close>, which raises \<open>TypeError\<close> when there are more parameters than data points or
  than residuals. The residuals \<open>f(xdata, *p0) - ydata\<close> of the model functions here have
  the shape that numpy's broadcasting gives \<open>xdata\<close> and \<open>ydata\<close>. Everything after these
  checks, the feasibility of the guess included, is the solver's.
\<close>

type_synonym solver =
  "curve_fit_args \<Rightarrow> real list \<Rightarrow> real list \<Rightarrow> py_error + (real list \<times> real list list)"

definition curve_fit :: "solver \<Rightarrow> solver" where
  "curve_fit solve args xdata ydata =
     (if ydata = [] then Inl ValueError
      else if bounds args = None then
        (if length ydata \<noteq> 1 \<and> length ydata < length (p0 args) then Inl TypeError
         else
           (case np_broadcast xdata ydata of
              Inl err \<Rightarrow> Inl err
            | Inr residuals \<Rightarrow>
                if length residuals < length (p0 args) then Inl TypeError
                else solve args xdata ydata))
      else solve args xdata ydata)"

definition fit_derivative ::
  "solver \<Rightarrow> real list \<Rightarrow> real list \<Rightarrow> string \<Rightarrow> py_error + (real list \<times> real list list)" where
  "fit_derivative solve x y fitProfile =
     (case fit_derivative_args x y fitProfile of
        Inl err \<Rightarrow> Inl err
      | Inr args \<Rightarrow> curve_fit solve args x y)"

subsection \<open>The Kittel fit and the damping fit\<close>

text \<open>
  \<open>Fit.KittelFit\<close>. \<open>max(resonance_fields)\<close> comes first and raises \<open>ValueError\<close> on an
  empty sequence. A mode that is neither string leaves \<open>y_fit\<close> unassigned, so the
  \<open>return\<close> raises \<open>UnboundLocalError\<close>. Unpacking \<open>*p\<close> into the two parameters of
  the model function raises \<open>TypeError\<close> for any other number of entries.
\<close>

definition KittelFit ::
  "solver \<Rightarrow> real list \<Rightarrow> real list \<Rightarrow> string
     \<Rightarrow> py_error + (real list \<times> real option list \<times> real list \<times> real list list)" where
  "KittelFit solve x y mode =
     (case py_max x of Inl err \<Rightarrow> Inl err | Inr x_max \<Rightarrow>
      let x_fit = np_linspace 0 x_max 100 in
      if mode = ''in-plane'' then
        (case curve_fit solve \<lparr>func = KittelInplane, p0 = [1000000, 21 / 10], bounds = None\<rparr> x y of
           Inl err \<Rightarrow> Inl err
         | Inr (p, pcov) \<Rightarrow>
             (case p of
                [M, g] \<Rightarrow> Inr (x_fit, map (\<lambda>B. kittel_fitfunction_inplane B M g) x_fit, p, pcov)
              | _ \<Rightarrow> Inl TypeError))
      else if mode = ''out-of-plane'' then
        (case np_broadcast x y of Inl err \<Rightarrow> Inl err | Inr xy \<Rightarrow>
         let M = 1 / mu0 * np_mean (map (\<lambda>(B, f). B - f * 10 ^ 9 / gamma_prime (21 / 10)) xy) in
         case curve_fit solve \<lparr>func = KittelOutofplane, p0 = [M, 21 / 10], bounds = None\<rparr> x y of
           Inl err \<Rightarrow> Inl err
         | Inr (p, pcov) \<Rightarrow>
             (case p of
                [M, g] \<Rightarrow>
                  Inr (x_fit, map (\<lambda>B. Some (kittel_fitfunction_outofplane B M g)) x_fit, p, pcov)
              | _ \<Rightarrow> Inl TypeError))
      else Inl UnboundLocalError)"

text \<open>
  \<open>Fit.damping_fitfunction\<close> at one frequency of the numpy array \<open>f\<close>: dividing by a zero
  \<open>gamma_prime\<close> gives an infinity or NaN.
\<close>

definition damping_fitfunction :: "real \<Rightarrow> real \<Rightarrow> real \<Rightarrow> real \<Rightarrow> real option" where
  "damping_fitfunction f alpha deltaB0 gp =
     (if gp = 0 then None else Some (alpha * f / gp + deltaB0))"

text \<open>\<open>Fit.DampingFit\<close>: the fit is called first, \<open>max(frequencies)\<close> after it.\<close>

definition DampingFit ::
  "solver \<Rightarrow> real list \<Rightarrow> real list \<Rightarrow> real
     \<Rightarrow> py_error + (real list \<times> real option list \<times> real list \<times> real list list)" where
  "DampingFit solve frequencies widths gp =
     (case curve_fit solve \<lparr>func = DampingCurry gp, p0 = [5 / 1000, 0], bounds = None\<rparr>
             frequencies widths of
        Inl err \<Rightarrow> Inl err
      | Inr (p, pcov) \<Rightarrow>
          (case py_max frequencies of Inl err \<Rightarrow> Inl err | Inr f_max \<Rightarrow>
           let x_fit = np_linspace 0 f_max 100 in
           case p of
             [alpha, deltaB0] \<Rightarrow>
               Inr (x_fit, map (\<lambda>f. damping_fitfunction f alpha deltaB0 gp) x_fit, p, pcov)
           | _ \<Rightarrow> Inl TypeError))"

subsection \<open>Feasible parameter vectors\<close>

text \<open>
  A parameter vector is admitted by a bounds pair when every entry lies between its lower
  and its upper bound, both included (the feasible set of the bounded least-squares fit).
\<close>

fun above_lower :: "bound \<Rightarrow> real \<Rightarrow> bool" where
  "above_lower NegInf v = True"
| "above_lower (Fin b) v = (b \<le> v)"
| "above_lower PosInf v = False"

fun below_upper :: "bound \<Rightarrow> real \<Rightarrow> bool" where
  "below_upper NegInf v = False"
| "below_upper (Fin b) v = (v \<le> b)"
| "below_upper PosInf v = True"

definition in_bounds :: "bound list \<times> bound list \<Rightarrow> real list \<Rightarrow> bool" where
  "in_bounds bs p = (list_all2 above_lower (fst bs) p \<and> list_all2 below_upper (snd bs) p)"

section \<open>Reference definitions, in the words of the specification\<close>

subsection \<open>Line-shape variants and their parameter layouts\<close>

datatype variant = Lorentz | AsymmetricLorentz | Voigt

datatype parameter = Amplitude | Center | Halfwidth | Sigma | Offset | Asymmetry

text \<open>The fixed parameter order of each variant.\<close>

fun layout :: "variant \<Rightarrow> parameter list" where
  "layout Lorentz = [Amplitude, Center, Halfwidth, Offset]"
| "layout AsymmetricLorentz = [Amplitude, Center, Halfwidth, Offset, Asymmetry]"
| "layout Voigt = [Amplitude, Center, Halfwidth, Sigma, Offset]"

text \<open>The strings by which the caller of \<open>Fit.LineFit\<close> names the variants.\<close>

fun profile_name :: "variant \<Rightarrow> string" where
  "profile_name Lorentz = ''Lorentz''"
| "profile_name AsymmetricLorentz = ''Asymmetric Lorentz''"
| "profile_name Voigt = ''Voigt''"

text \<open>
  The bounds of the specification: centre, half-width and sigma are bounded below at
  zero, every other parameter is unbounded, and no parameter is bounded above.
\<close>

fun lower_bound_of :: "parameter \<Rightarrow> bound" where
  "lower_bound_of Center = Fin 0"
| "lower_bound_of Halfwidth = Fin 0"
| "lower_bound_of Sigma = Fin 0"
| "lower_bound_of Amplitude = NegInf"
| "lower_bound_of Offset = NegInf"
| "lower_bound_of Asymmetry = NegInf"

subsection \<open>The estimator\<close>

text \<open>
  The index at which a value first occurs; the argmax and argmin of a sequence are the
  first indices at which its greatest and its least value occur.
\<close>

definition first_index :: "real \<Rightarrow> real list \<Rightarrow> nat" where
  "first_index v ys = length (takeWhile (\<lambda>u. u \<noteq> v) ys)"

definition arg_max_index :: "real list \<Rightarrow> nat" where
  "arg_max_index ys = first_index (Max (set ys)) ys"

definition arg_min_index :: "real list \<Rightarrow> nat" where
  "arg_min_index ys = first_index (Min (set ys)) ys"

text \<open>
  The cumulative trapezoidal integral of (signal minus offset) over the field axis, from
  the first sample up to sample \<open>j\<close>: the sum of the first \<open>j\<close> trapezoids.
\<close>

definition trapezoid :: "real list \<Rightarrow> real list \<Rightarrow> real \<Rightarrow> nat \<Rightarrow> real" where
  "trapezoid x y off j = (x ! Suc j - x ! j) * ((y ! j - off) + (y ! Suc j - off)) / 2"

definition integral_upto :: "real list \<Rightarrow> real list \<Rightarrow> real \<Rightarrow> nat \<Rightarrow> real" where
  "integral_upto x y off j = sum_list (map (trapezoid x y off) [0 ..< j])"

text \<open>
  Sample \<open>j\<close>, one after the first, is a sample at which the integral is least, or
  greatest, among the samples after the first.
\<close>

definition integral_least_at :: "real list \<Rightarrow> real list \<Rightarrow> real \<Rightarrow> nat \<Rightarrow> bool" where
  "integral_least_at x y off j =
     (0 < j \<and> j < length y
      \<and> list_all (\<lambda>i. integral_upto x y off j \<le> integral_upto x y off i) [1 ..< length y])"

definition integral_greatest_at :: "real list \<Rightarrow> real list \<Rightarrow> real \<Rightarrow> nat \<Rightarrow> bool" where
  "integral_greatest_at x y off j =
     (0 < j \<and> j < length y
      \<and> list_all (\<lambda>i. integral_upto x y off i \<le> integral_upto x y off j) [1 ..< length y])"

definition scale_correction :: "variant \<Rightarrow> real" where
  "scale_correction v = (case v of Voigt \<Rightarrow> 10 | Lorentz \<Rightarrow> 1 / 100 | AsymmetricLorentz \<Rightarrow> 1 / 100)"

text \<open>
  The guess vector of the estimator when the centre is read at sample \<open>c\<close>: offset and
  width as in steps 1 and 2 of the specification, the centre the field and the scale the
  signal minus offset at sample \<open>c\<close>, the scale corrected by variant, in the variant's
  parameter order.
\<close>

definition estimator_guess :: "variant \<Rightarrow> real list \<Rightarrow> real list \<Rightarrow> nat \<Rightarrow> real list" where
  "estimator_guess v x y c =
     (let offset = sum_list y / real (length y);
          width = \<bar>x ! arg_max_index y - x ! arg_min_index y\<bar> / 2 * sqrt 3;
          center = x ! c;
          scale = (y ! c - offset) * scale_correction v
      in map (\<lambda>q. case q of
                   Amplitude \<Rightarrow> scale
                 | Center \<Rightarrow> center
                 | Halfwidth \<Rightarrow> width
                 | Sigma \<Rightarrow> 1 / 1000
                 | Offset \<Rightarrow> offset
                 | Asymmetry \<Rightarrow> 0) (layout v))"

text \<open>The model function that is fitted for a variant.\<close>

fun model_of :: "variant \<Rightarrow> model_function" where
  "model_of Lorentz = LorentzDerivative"
| "model_of AsymmetricLorentz = AsymmetricLorentzDerivative"
| "model_of Voigt = VoigtDerivative"

subsection \<open>Second-order finite differences\<close>

text \<open>
  The derivative at \<open>t\<close> of the parabola through \<open>(x0, f0)\<close>, \<open>(x1, f1)\<close>, \<open>(x2, f2)\<close>.
  The second-order difference at an interior sample differentiates the parabola through
  the sample and its two neighbours (the central difference); at the first and the last
  sample it differentiates the parabola through the three nearest samples (the one-sided
  difference).
\<close>

definition parabola_derivative ::
  "real \<Rightarrow> real \<Rightarrow> real \<Rightarrow> real \<Rightarrow> real \<Rightarrow> real \<Rightarrow> real \<Rightarrow> real" where
  "parabola_derivative x0 x1 x2 f0 f1 f2 t =
     f0 * ((t - x1) + (t - x2)) / ((x0 - x1) * (x0 - x2))
   + f1 * ((t - x0) + (t - x2)) / ((x1 - x0) * (x1 - x2))
   + f2 * ((t - x0) + (t - x1)) / ((x2 - x0) * (x2 - x1))"

definition second_order_difference :: "(real \<Rightarrow> real) \<Rightarrow> real list \<Rightarrow> nat \<Rightarrow> real" where
  "second_order_difference l x i =
     (let n = length x;
          j = (if i = 0 then 1 else if i = n - 1 then n - 2 else i)
      in parabola_derivative (x ! (j - 1)) (x ! j) (x ! (j + 1))
           (l (x ! (j - 1))) (l (x ! j)) (l (x ! (j + 1))) (x ! i))"

subsection \<open>The phase search\<close>



section \<open>Properties\<close>

subsection \<open>Kittel model functions\<close>

text \<open>
  Claim C4. For every field value \<open>B \<ge> 0\<close> and all \<open>M\<close>, \<open>g\<close>, the in-plane Kittel
  function returns \<open>\<gamma>' * sqrt (B * (B + \<mu>\<^sub>0 M))\<close> and the out-of-plane function returns
  \<open>\<gamma>' * (B - \<mu>\<^sub>0 M)\<close>, with \<open>\<gamma>' = g e / (2 m\<^sub>e) / (2 \<pi>)\<close> from the shared constants. Where
  the radicand is negative the square root has no real value, and the code returns NaN.
\<close>

theorem kittel_fitfunctions_formula:
  assumes "0 \<le> B"
  shows "(0 \<le> B * (B + mu0 * M) \<longrightarrow>
            kittel_fitfunction_inplane B M g
              = Some (g * e / (2 * me) / (2 * pi) * sqrt (B * (B + mu0 * M))))
       \<and> (B * (B + mu0 * M) < 0 \<longrightarrow> kittel_fitfunction_inplane B M g = None)
       \<and> kittel_fitfunction_outofplane B M g = g * e / (2 * me) / (2 * pi) * (B - mu0 * M)"
  by (simp add: kittel_fitfunction_inplane_def kittel_fitfunction_outofplane_def
      np_sqrt_def gamma_prime_def)

theorem kittel_fitfunctions_formula_witness:
  "(0::real) \<le> 2 \<and> (0::real) \<le> 2 * (2 + mu0 * 0)
   \<and> kittel_fitfunction_inplane 2 0 3 = Some (3 * e / (2 * me) / (2 * pi) * sqrt (2 * (2 + mu0 * 0)))
   \<and> kittel_fitfunction_outofplane 2 0 3 = 3 * e / (2 * me) / (2 * pi) * (2 - mu0 * 0)
   \<and> (2::real) * (2 + mu0 * (- 10000000)) < 0
   \<and> kittel_fitfunction_inplane 2 (- 10000000) 3 = None"
proof -
  have neg: "(2::real) * (2 + mu0 * (- 10000000)) < 0" by (simp add: mu0_def)
  show ?thesis
    using kittel_fitfunctions_formula [of 2 0 3] kittel_fitfunctions_formula [of 2 "- 10000000" 3] neg
    by simp
qed

subsection \<open>\<open>np.argmin\<close> returns the first index of the least value\<close>



subsection \<open>The autophase estimator\<close>










subsection \<open>Numeric differentiation of the asymmetric Lorentz line\<close>

lemma parabola_central:
  fixes dx1 dx2 :: real
  assumes "0 < dx1" "0 < dx2"
  shows "(- dx2 / (dx1 * (dx1 + dx2))) * f0 + ((dx2 - dx1) / (dx1 * dx2)) * f1
           + (dx1 / (dx2 * (dx1 + dx2))) * f2
         = parabola_derivative x0 (x0 + dx1) (x0 + dx1 + dx2) f0 f1 f2 (x0 + dx1)"
proof -
  have nz: "dx1 \<noteq> 0" "dx2 \<noteq> 0" "dx1 + dx2 \<noteq> 0" using assms by simp_all
  show ?thesis unfolding parabola_derivative_def using nz
    by (simp add: field_simps)
qed

lemma parabola_first:
  fixes dx1 dx2 :: real
  assumes "0 < dx1" "0 < dx2"
  shows "(- (2 * dx1 + dx2) / (dx1 * (dx1 + dx2))) * f0 + ((dx1 + dx2) / (dx1 * dx2)) * f1
           + (- dx1 / (dx2 * (dx1 + dx2))) * f2
         = parabola_derivative x0 (x0 + dx1) (x0 + dx1 + dx2) f0 f1 f2 x0"
proof -
  have nz: "dx1 \<noteq> 0" "dx2 \<noteq> 0" "dx1 + dx2 \<noteq> 0" using assms by simp_all
  show ?thesis unfolding parabola_derivative_def using nz
    by (simp add: field_simps)
qed

lemma parabola_last:
  fixes dx1 dx2 :: real
  assumes "0 < dx1" "0 < dx2"
  shows "(dx2 / (dx1 * (dx1 + dx2))) * f0 + (- (dx2 + dx1) / (dx1 * dx2)) * f1
           + ((2 * dx2 + dx1) / (dx2 * (dx1 + dx2))) * f2
         = parabola_derivative x0 (x0 + dx1) (x0 + dx1 + dx2) f0 f1 f2 (x0 + dx1 + dx2)"
proof -
  have nz: "dx1 \<noteq> 0" "dx2 \<noteq> 0" "dx1 + dx2 \<noteq> 0" using assms by simp_all
  show ?thesis unfolding parabola_derivative_def using nz
    by (simp add: field_simps)
qed

lemma np_diff_length: "length (np_diff xs) = length xs - 1"
  by (simp add: np_diff_def)

lemma np_diff_nth:
  assumes "Suc k < length xs"
  shows "np_diff xs ! k = xs ! Suc k - xs ! k"
  using assms by (simp add: np_diff_def nth_tl nth_butlast)

lemma increasing_step:
  assumes "sorted_wrt (<) (xs :: real list)" "Suc k < length xs"
  shows "0 < xs ! Suc k - xs ! k"
  using assms by (simp add: sorted_wrt_iff_nth_less)

lemma gradient_general_first:
  "gradient_general f dx 0 =
     stencil (dx ! 0 = 0 \<or> dx ! 1 = 0 \<or> dx ! 0 + dx ! 1 = 0)
       (- (2 * dx ! 0 + dx ! 1) / (dx ! 0 * (dx ! 0 + dx ! 1)))
       ((dx ! 0 + dx ! 1) / (dx ! 0 * dx ! 1))
       (- dx ! 0 / (dx ! 1 * (dx ! 0 + dx ! 1)))
       (f ! 0) (f ! 1) (f ! 2)"
  by (simp add: gradient_general_def Let_def)

lemma gradient_general_last:
  assumes "i \<noteq> 0" "i = length f - 1"
  shows "gradient_general f dx i =
     stencil (dx ! (length f - 3) = 0 \<or> dx ! (length f - 2) = 0
                \<or> dx ! (length f - 3) + dx ! (length f - 2) = 0)
       (dx ! (length f - 2) / (dx ! (length f - 3) * (dx ! (length f - 3) + dx ! (length f - 2))))
       (- (dx ! (length f - 2) + dx ! (length f - 3)) / (dx ! (length f - 3) * dx ! (length f - 2)))
       ((2 * dx ! (length f - 2) + dx ! (length f - 3))
          / (dx ! (length f - 2) * (dx ! (length f - 3) + dx ! (length f - 2))))
       (f ! (length f - 3)) (f ! (length f - 2)) (f ! (length f - 1))"
  using assms by (simp add: gradient_general_def Let_def)

lemma gradient_general_mid:
  assumes "i \<noteq> 0" "i \<noteq> length f - 1"
  shows "gradient_general f dx i =
     stencil (dx ! (i - 1) = 0 \<or> dx ! i = 0 \<or> dx ! (i - 1) + dx ! i = 0)
       (- dx ! i / (dx ! (i - 1) * (dx ! (i - 1) + dx ! i)))
       ((dx ! i - dx ! (i - 1)) / (dx ! (i - 1) * dx ! i))
       (dx ! (i - 1) / (dx ! i * (dx ! (i - 1) + dx ! i)))
       (f ! (i - 1)) (f ! i) (f ! Suc i)"
  using assms by (simp add: gradient_general_def Let_def)

lemma gradient_general_entry:
  assumes inc: "sorted_wrt (<) x" and n: "3 \<le> length x" and i: "i < length x"
  shows "gradient_general (map l x) (np_diff x) i = Some (second_order_difference l x i)"
proof -
  define n where "n = length x"
  define j where "j = (if i = 0 then 1 else if i = n - 1 then n - 2 else i)"
  have j: "0 < j" "Suc j < n" using n i unfolding j_def n_def by auto
  define a0 where "a0 = x ! (j - 1)"
  define dx1 where "dx1 = x ! j - x ! (j - 1)"
  define dx2 where "dx2 = x ! Suc j - x ! j"
  define F0 where "F0 = l (x ! (j - 1))"
  define F1 where "F1 = l (x ! j)"
  define F2 where "F2 = l (x ! Suc j)"
  have d1: "np_diff x ! (j - 1) = dx1"
    using j np_diff_nth [of "j - 1" x] by (simp add: dx1_def n_def)
  have d2: "np_diff x ! j = dx2"
    using j np_diff_nth [of j x] by (simp add: dx2_def n_def)
  have p1: "0 < dx1" using increasing_step [OF inc, of "j - 1"] j by (simp add: dx1_def n_def)
  have p2: "0 < dx2" using increasing_step [OF inc, of j] j by (simp add: dx2_def n_def)
  have x1: "x ! j = a0 + dx1" by (simp add: dx1_def a0_def)
  have x2: "x ! Suc j = a0 + dx1 + dx2" by (simp add: dx1_def dx2_def a0_def)
  have nz: "(dx1 = 0 \<or> dx2 = 0 \<or> dx1 + dx2 = 0) = False" using p1 p2 by simp
  have fj: "map l x ! (j - 1) = F0" "map l x ! j = F1" "map l x ! Suc j = F2"
    using j by (simp_all add: n_def F0_def F1_def F2_def)
  have Fs: "F0 = l a0" "F1 = l (a0 + dx1)" "F2 = l (a0 + dx1 + dx2)"
    by (simp_all only: F0_def F1_def F2_def x1 x2 a0_def [symmetric])
  have sod: "second_order_difference l x i =
      parabola_derivative a0 (a0 + dx1) (a0 + dx1 + dx2) F0 F1 F2 (x ! i)"
    unfolding second_order_difference_def Let_def n_def [symmetric] j_def [symmetric]
    by (simp only: Suc_eq_plus1 [symmetric] x1 x2 a0_def [symmetric] Fs)
  have len: "length (map l x) = n" by (simp add: n_def)
  consider (first) "i = 0" | (last) "i \<noteq> 0" "i = n - 1" | (mid) "i \<noteq> 0" "i \<noteq> n - 1" by blast
  then show ?thesis
  proof cases
    case first
    then have j1: "j = 1" by (simp add: j_def)
    have xi: "x ! i = a0" by (simp add: first a0_def j1)
    have d: "np_diff x ! 0 = dx1" "np_diff x ! 1 = dx2" using d1 d2 by (simp_all add: j1)
    have f: "map l x ! 0 = F0" "map l x ! 1 = F1" "map l x ! 2 = F2"
      using fj by (simp_all add: j1 numeral_2_eq_2)
    show ?thesis
      by (simp only: first gradient_general_first d f stencil_def nz if_False sod [unfolded first]
          xi [unfolded first] parabola_first [OF p1 p2, of F0 F1 F2 a0])
  next
    case last
    then have jn: "j = n - 2" by (simp add: j_def)
    have idx: "n - 3 = j - 1" "n - 2 = j" "n - 1 = Suc j" using n jn by (simp_all add: n_def)
    have xi: "x ! i = a0 + dx1 + dx2" by (simp only: last(2) idx x2)
    have l2: "i = length (map l x) - 1" using last(2) by (simp add: n_def)
    show ?thesis
      by (simp only: gradient_general_last [OF last(1) l2] len idx d1 d2 fj stencil_def nz if_False
          sod xi parabola_last [OF p1 p2, of F0 F1 F2 a0])
  next
    case mid
    then have ji: "j = i" by (simp add: j_def)
    have xi: "x ! i = a0 + dx1" by (simp only: ji [symmetric] x1)
    have m2: "i \<noteq> length (map l x) - 1" using mid(2) by (simp add: n_def)
    show ?thesis
      by (simp only: gradient_general_mid [OF mid(1) m2] d1 [unfolded ji] d2 [unfolded ji]
          fj [unfolded ji] stencil_def nz if_False sod xi parabola_central [OF p1 p2, of F0 F1 F2 a0])
  qed
qed

lemma gradient_uniform_general:
  assumes eq: "\<forall>k < length f - 1. dx ! k = h" and h: "h \<noteq> 0"
    and n: "3 \<le> length f" and i: "i < length f"
  shows "gradient_uniform f h i = gradient_general f dx i"
proof -
  have hh: "h + h \<noteq> 0" using h by simp
  consider (first) "i = 0" | (last) "i \<noteq> 0" "i = length f - 1"
    | (mid) "i \<noteq> 0" "i \<noteq> length f - 1" by blast
  then show ?thesis
  proof cases
    case first
    have d: "dx ! 0 = h" "dx ! 1 = h" using eq n by simp_all
    show ?thesis unfolding first gradient_general_first d
      using h hh by (simp add: gradient_uniform_def stencil_def field_simps)
  next
    case last
    have d: "dx ! (length f - 3) = h" "dx ! (length f - 2) = h" using eq n by simp_all
    show ?thesis unfolding gradient_general_last [OF last] d
      using h hh last by (simp add: gradient_uniform_def stencil_def Let_def field_simps)
  next
    case mid
    have d: "dx ! (i - 1) = h" "dx ! i = h" using eq n i mid by simp_all
    show ?thesis unfolding gradient_general_mid [OF mid] d
      using h hh mid by (simp add: gradient_uniform_def stencil_def field_simps)
  qed
qed

lemma np_gradient_increasing:
  assumes inc: "sorted_wrt (<) x" and n: "3 \<le> length x"
  shows "np_gradient (map l x) x = Inr (map (\<lambda>i. Some (second_order_difference l x i)) [0 ..< length x])"
proof -
  define dx where "dx = np_diff x"
  have ldx: "length dx = length x - 1" by (simp add: dx_def np_diff_length)
  have dx0: "dx \<noteq> []" using ldx n by auto
  have hd: "hd dx = dx ! 0" using dx0 by (simp add: hd_conv_nth)
  have pos: "0 < dx ! 0" using increasing_step [OF inc, of 0] n np_diff_nth [of 0 x]
    by (simp add: dx_def)
  have gen: "map (gradient_general (map l x) dx) [0 ..< length x]
      = map (\<lambda>i. Some (second_order_difference l x i)) [0 ..< length x]"
    using gradient_general_entry [OF inc n] by (simp add: dx_def)
  have uni: "list_all (\<lambda>d. d = hd dx) dx \<Longrightarrow>
      map (gradient_uniform (map l x) (hd dx)) [0 ..< length x]
      = map (gradient_general (map l x) dx) [0 ..< length x]"
  proof -
    assume a: "list_all (\<lambda>d. d = hd dx) dx"
    have "\<forall>k < length (map l x) - 1. dx ! k = hd dx"
      using a ldx by (simp add: list_all_length)
    moreover have "hd dx \<noteq> 0" using pos hd by simp
    ultimately show ?thesis
      using gradient_uniform_general [of "map l x" dx "hd dx"] n by simp
  qed
  show ?thesis using n gen uni
    by (simp add: np_gradient_def Let_def dx_def [symmetric])
qed

text \<open>
  Claim C6. For every strictly increasing field sequence of length at least 3 and all
  parameters with \<open>Gamma \<noteq> 0\<close>, \<open>asymmetric_lorentz_derivative\<close> returns the numeric
  derivative of the un-differentiated asymmetric Lorentzian
  \<open>l(B) = A Gamma\<^sup>2 (1 + 2 beta (B0 - B) / Gamma) / ((B0 - B)\<^sup>2 + Gamma\<^sup>2)\<close>: second-order
  central differences at the interior samples, second-order one-sided differences at the
  two end samples, plus the offset. The coefficients of \<open>np.gradient\<close>, in its uniform
  and in its general branch, are those of the derivative of the parabola through three
  neighbouring samples.
\<close>

theorem asymmetric_lorentz_derivative_second_order:
  assumes "sorted_wrt (<) B" "3 \<le> length B" "Gamma \<noteq> 0"
  shows "asymmetric_lorentz_derivative B A B0 Gamma offset beta =
     Inr (map (\<lambda>i. Some (second_order_difference
                  (\<lambda>b. A * Gamma\<^sup>2 * (1 + 2 * beta * (B0 - b) / Gamma) / ((B0 - b)\<^sup>2 + Gamma\<^sup>2))
                  B i + offset))
            [0 ..< length B])"
proof -
  define l where "l = (\<lambda>b. A * Gamma\<^sup>2 * (1 + 2 * beta * (B0 - b) / Gamma) / ((B0 - b)\<^sup>2 + Gamma\<^sup>2))"
  have m: "map (\<lambda>b. case asymmetric_lorentz b A B0 Gamma beta of None \<Rightarrow> 0 | Some v \<Rightarrow> v) B = map l B"
    using assms(3) by (simp add: asymmetric_lorentz_def l_def)
  show ?thesis
    unfolding asymmetric_lorentz_derivative_def m l_def [symmetric]
      np_gradient_increasing [OF assms(1) assms(2), of l]
    using assms(3) by (simp add: o_def)
qed

text \<open>
  The reference difference is second-order accurate: on samples of any quadratic it
  returns the exact derivative, at every evaluation point.
\<close>

lemma parabola_derivative_exact:
  fixes x0 x1 x2 :: real
  assumes "x0 \<noteq> x1" "x0 \<noteq> x2" "x1 \<noteq> x2"
  shows "parabola_derivative x0 x1 x2 (a * x0\<^sup>2 + b * x0 + c) (a * x1\<^sup>2 + b * x1 + c)
           (a * x2\<^sup>2 + b * x2 + c) t = 2 * a * t + b"
proof -
  define p where "p = x0 - x1"
  define q where "q = x1 - x2"
  have nz: "p \<noteq> 0" "q \<noteq> 0" "p + q \<noteq> 0" using assms by (simp_all add: p_def q_def)
  have x0: "x0 = x2 + q + p" and x1: "x1 = x2 + q" by (simp_all add: p_def q_def)
  show ?thesis
    unfolding parabola_derivative_def x0 x1 using nz
    by (simp add: divide_simps) algebra
qed

theorem asymmetric_lorentz_derivative_second_order_witness:
  "sorted_wrt (<) [0, 1, 3 :: real] \<and> 3 \<le> length [0, 1, 3 :: real] \<and> (1::real) \<noteq> 0
   \<and> asymmetric_lorentz_derivative [0, 1, 3] 1 0 1 (1 / 10) 0
       = Inr [Some (- 3 / 5 + 1 / 10), Some (- 2 / 5 + 1 / 10), Some (0 + 1 / 10)]"
  using asymmetric_lorentz_derivative_second_order [of "[0, 1, 3]" 1 1 0 "1 / 10" 0]
  by (simp add: second_order_difference_def parabola_derivative_def)

subsection \<open>The field-range planner\<close>

lemma calc_B_range_eq:
  assumes "0 < deltaB" "0 < sampling"
  shows "calc_B_range q B0 deltaB multiplier sampling offset =
    Inr (map (\<lambda>k. max 0 (B0 - multiplier * deltaB) + real k * (deltaB / sampling) + offset)
      [0 ..< nat \<lceil>q\<rceil>])"
proof -
  have "deltaB / sampling \<noteq> 0" using assms by simp
  moreover have "(if B0 - multiplier * deltaB < 0 then 0 else B0 - multiplier * deltaB)
       = max 0 (B0 - multiplier * deltaB)" by (simp add: max_def)
  ultimately show ?thesis using assms
    unfolding calc_B_range_def np_arange_def Let_def
    by (simp add: o_def)
qed

lemma rounded_quotient_bounds:
  fixes w step :: real
  assumes "0 < step" "0 < w" "rounded_quotient tol q lo (lo + w) step"
  shows "w - tol * w \<le> q * step" and "q * step \<le> w + tol * w"
proof -
  have Q: "0 < w / step" using assms by simp
  have "\<bar>w / step\<bar> = w / step" using Q by (rule abs_of_pos)
  moreover have "\<bar>q - w / step\<bar> \<le> tol * \<bar>w / step\<bar>"
    using assms(3) unfolding rounded_quotient_def by (simp only: add_diff_cancel_left')
  ultimately have "\<bar>q - w / step\<bar> \<le> tol * (w / step)" by (simp only:)
  then have a: "w / step - tol * (w / step) \<le> q" and b: "q \<le> w / step + tol * (w / step)"
    by linarith+
  have "(w / step - tol * (w / step)) * step \<le> q * step"
    using a assms(1) by (intro mult_right_mono) simp_all
  then show "w - tol * w \<le> q * step" using assms(1) by (simp add: algebra_simps)
  have "q * step \<le> (w / step + tol * (w / step)) * step"
    using b assms(1) by (intro mult_right_mono) simp_all
  then show "q * step \<le> w + tol * w" using assms(1) by (simp add: algebra_simps)
qed

lemma grid_count:
  fixes q :: real
  assumes "0 < q"
  defines "N \<equiv> nat \<lceil>q\<rceil>"
  shows "0 < N" and "real (N - 1) < q" and "q \<le> real N"
proof -
  have c: "0 < \<lceil>q\<rceil>" using assms(1) by simp
  then show "0 < N" by (simp add: N_def)
  have rN: "real N = of_int \<lceil>q\<rceil>" using c by (simp add: N_def)
  show "q \<le> real N" unfolding rN by (rule le_of_int_ceiling)
  have "real (N - 1) = real N - 1" using \<open>0 < N\<close> by (simp add: of_nat_diff)
  moreover have "real N - 1 < q" unfolding rN by linarith
  ultimately show "real (N - 1) < q" by simp
qed









text \<open>
  Claim C9. The lower bound is clipped before the offset is added: whenever
  \<open>B0 - multiplier * deltaB < 0\<close>, the first element of the returned sequence is exactly
  the offset, so for every strictly negative offset the plan contains a negative field
  value. The expected resonance field that \<open>field_sweep\<close> passes is a Kittel resonance
  field, a square root or an absolute value up to rounding; what is used of it is that
  the upper end \<open>B0 + multiplier * deltaB\<close> of the plan is not negative, which holds for
  every \<open>B0 \<ge> 0\<close>. \<open>deltaB\<close>, \<open>multiplier\<close> and \<open>sampling\<close> are positive, and \<open>q\<close> is the
  rounded quotient of the \<open>np.arange\<close> call, within a relative error \<open>tol < 1\<close> of the
  exact one.
\<close>

theorem calc_B_range_clipped_offset:
  assumes "0 < deltaB" "0 < multiplier" "0 < sampling"
    and "B0 - multiplier * deltaB < 0" and "0 \<le> B0 + multiplier * deltaB"
    and "tol < 1"
    and "rounded_quotient tol q 0 (B0 + multiplier * deltaB + deltaB / sampling) (deltaB / sampling)"
  shows "\<exists>B. calc_B_range q B0 deltaB multiplier sampling offset = Inr B
     \<and> B \<noteq> [] \<and> hd B = offset \<and> (offset < 0 \<longrightarrow> (\<exists>b \<in> set B. b < 0))"
proof -
  define step where "step = deltaB / sampling"
  define w where "w = B0 + multiplier * deltaB + step"
  define N where "N = nat \<lceil>q\<rceil>"
  define B where "B = map (\<lambda>k. 0 + real k * step + offset) [0 ..< N]"
  have step: "0 < step" using assms by (simp add: step_def)
  have w: "0 < w" using assms(5) step unfolding w_def by linarith
  have rq: "rounded_quotient tol q 0 (0 + w) step"
    using assms(7) by (simp add: w_def step_def)
  note b = rounded_quotient_bounds [OF step w rq]
  have "0 < w * (1 - tol)" using w assms(6) by (intro mult_pos_pos) simp_all
  then have "0 < w - tol * w" by (simp add: algebra_simps)
  then have "0 < q * step" using b(1) by linarith
  then have q: "0 < q" using step by (simp add: zero_less_mult_iff)
  have lo: "max 0 (B0 - multiplier * deltaB) = 0" using assms(4) by simp
  have eq: "calc_B_range q B0 deltaB multiplier sampling offset = Inr B"
    using calc_B_range_eq [OF assms(1) assms(3), of q B0 multiplier offset]
    by (simp add: lo B_def N_def step_def)
  have N: "0 < N" unfolding N_def using q by (rule grid_count(1))
  then have ne: "B \<noteq> []" by (auto simp add: B_def)
  have h: "hd B = offset" using N by (simp add: B_def hd_map upt_conv_Cons)
  have "hd B \<in> set B" using ne by simp
  then have "offset < 0 \<longrightarrow> (\<exists>b \<in> set B. b < 0)" using h by auto
  then show ?thesis using eq ne h by blast
qed

theorem calc_B_range_clipped_offset_witness:
  "(0::real) < 2 / 1000 \<and> (0::real) < 8 \<and> (0::real) < 6
   \<and> (1 / 1000 :: real) - 8 * (2 / 1000) < 0 \<and> (0::real) \<le> 1 / 1000 + 8 * (2 / 1000)
   \<and> (1 / 2 ^ 50 :: real) < 1
   \<and> rounded_quotient (1 / 2 ^ 50) (52 + 1 / 2 ^ 47) 0
         (1 / 1000 + 8 * (2 / 1000) + 2 / 1000 / 6) (2 / 1000 / 6)
   \<and> (- 1 / 100 :: real) < 0
   \<and> (\<exists>B. calc_B_range (52 + 1 / 2 ^ 47) (1 / 1000) (2 / 1000) 8 6 (- 1 / 100) = Inr B
          \<and> B \<noteq> [] \<and> hd B = - 1 / 100 \<and> (\<exists>b \<in> set B. b < 0))"
proof -
  have r: "rounded_quotient (1 / 2 ^ 50) (52 + 1 / 2 ^ 47) 0
         (1 / 1000 + 8 * (2 / 1000) + 2 / 1000 / 6) (2 / 1000 / 6)"
    by (simp add: rounded_quotient_def)
  have t: "(1 / 2 ^ 50 :: real) < 1" by simp
  show ?thesis
    using r calc_B_range_clipped_offset [of "2 / 1000" 8 6 "1 / 1000" "1 / 2 ^ 50"
        "52 + 1 / 2 ^ 47" "- 1 / 100", OF _ _ _ _ _ t r]
    by simp
qed

end
